theory Spec2Isabelle
  imports Main "HOL-Library.Word"
begin

unbundle bit_operations_syntax

section \<open>Thread-local allocator attachment (src/mem/threadalloc.h)\<close>

subsection \<open>Handle references and the pool\<close>

text \<open>
  A value of type \<open>Alloc*\<close> (or the \<open>void*\<close> that \<open>lazy_replacement\<close> takes) is
  \<open>nullptr\<close>, the address of the global \<open>GlobalPlaceHolder\<close>, or the address of some other
  allocator object. The code only ever compares such pointers for equality.
\<close>

datatype ref = Null | Placeholder | Handle nat

text \<open>Every interaction with \<open>current_alloc_pool()\<close> is logged, in order.\<close>

datatype pool_call = Acquire ref | Release ref

text \<open>
  The pool itself (\<open>globalalloc.h\<close>) is not among the sources: its two operations are
  parameters of the model, acting on a pool state of any type.
\<close>

record 'p pool_impl =
  acquire_fn :: "'p \<Rightarrow> ref \<times> 'p"
  release_fn :: "ref \<Rightarrow> 'p \<Rightarrow> 'p"

text \<open>
  What one thread sees. Each \<open>get()\<close> owns a function-local \<open>static thread_local\<close>
  pointer: \<open>per_thread\<close> in \<open>ThreadAllocLibcCleanup::get\<close>, \<open>alloc\<close> in
  \<open>ThreadAllocThreadDestructor::get\<close>; \<open>untyped\<close> is the storage behind the host's
  \<open>ThreadAllocUntyped::get\<close>. \<open>tidier\<close> tells whether the \<open>thread_local OnDestruct\<close>
  object of \<open>register_cleanup\<close> has been constructed.
\<close>

record 'p thread =
  per_thread :: ref
  alloc :: ref
  untyped :: ref
  tidier :: bool
  pool :: 'p
  calls :: "pool_call list"

text \<open>
  Both thread-local pointers are initialised with \<open>&GlobalPlaceHolder\<close>; the host's storage
  starts with whatever the host put there.
\<close>

definition fresh_thread :: "ref \<Rightarrow> 'p \<Rightarrow> 'p thread" where
  "fresh_thread host p =
     \<lparr>per_thread = Placeholder, alloc = Placeholder, untyped = host, tidier = False,
      pool = p, calls = []\<rparr>"

definition pool_release :: "'p pool_impl \<Rightarrow> ref \<Rightarrow> 'p thread \<Rightarrow> 'p thread" where
  "pool_release P h s =
     s\<lparr>pool := release_fn P h (pool s), calls := calls s @ [Release h]\<rparr>"

definition pool_acquire :: "'p pool_impl \<Rightarrow> 'p thread \<Rightarrow> ref \<times> 'p thread" where
  "pool_acquire P s =
     (let (h, p') = acquire_fn P (pool s)
      in (h, s\<lparr>pool := p', calls := calls s @ [Acquire h]\<rparr>))"

text \<open>
  Modelled from the spec: a pool for running the model on concrete inputs. \<open>acquire()\<close>
  "returns a handle (creating one if the pool is empty)", \<open>release(handle)\<close> "returns it
  for reuse".
\<close>

record pool_state =
  idle :: "ref list"
  fresh :: nat

definition spec_acquire :: "pool_state \<Rightarrow> ref \<times> pool_state" where
  "spec_acquire p =
     (case idle p of
        [] \<Rightarrow> (Handle (fresh p), p\<lparr>fresh := Suc (fresh p)\<rparr>)
      | h # hs \<Rightarrow> (h, p\<lparr>idle := hs\<rparr>))"

definition spec_release :: "ref \<Rightarrow> pool_state \<Rightarrow> pool_state" where
  "spec_release h p = p\<lparr>idle := h # idle p\<rparr>"

definition spec_pool :: "pool_state pool_impl" where
  "spec_pool = \<lparr>acquire_fn = spec_acquire, release_fn = spec_release\<rparr>"

definition empty_pool :: pool_state where
  "empty_pool = \<lparr>idle = [], fresh = 0\<rparr>"

subsection \<open>ThreadAllocLibcCleanup\<close>

definition libc_get :: "'p thread \<Rightarrow> ref" where
  "libc_get s = per_thread s"

text \<open>
  \<open>exit()\<close> declares \<open>auto* per_thread = get();\<close>. \<open>get()\<close> returns \<open>Alloc*&\<close>, but
  \<open>auto*\<close> deduces \<open>Alloc*\<close>: the local is a copy of the slot, not a reference to it
  (\<open>lazy_replacement_slow\<close> writes \<open>auto*&\<close> where it wants the reference). The
  assignment \<open>per_thread = nullptr\<close> therefore changes the local only.
  \<open>libc_exit_locals\<close> returns the final value of that local beside the thread's state.
\<close>

definition libc_exit_locals :: "'p pool_impl \<Rightarrow> 'p thread \<Rightarrow> ref \<times> 'p thread" where
  "libc_exit_locals P s =
     (let local_per_thread = libc_get s
      in if local_per_thread \<noteq> Placeholder \<and> local_per_thread \<noteq> Null
         then (Null, pool_release P local_per_thread s)
         else (local_per_thread, s))"

definition libc_exit :: "'p pool_impl \<Rightarrow> 'p thread \<Rightarrow> 'p thread" where
  "libc_exit P s = snd (libc_exit_locals P s)"

subsection \<open>ThreadAllocThreadDestructor\<close>

definition td_get :: "'p thread \<Rightarrow> ref" where
  "td_get s = alloc s"

definition inner_release :: "'p pool_impl \<Rightarrow> 'p thread \<Rightarrow> 'p thread" where
  "inner_release P s =
     (if td_get s \<noteq> Placeholder
      then (pool_release P (td_get s) s)\<lparr>alloc := Placeholder\<rparr>
      else s)"

subsection \<open>The ThreadAlloc alias and lazy replacement\<close>

text \<open>The build selects which class \<open>ThreadAlloc\<close> names, and whether \<open>assert\<close> is compiled.\<close>

datatype strategy = LibcCleanup | ThreadDestructor | UntypedWrapper

record config =
  thread_alloc :: strategy
  ndebug :: bool

fun get :: "strategy \<Rightarrow> 'p thread \<Rightarrow> ref" where
  "get LibcCleanup s = libc_get s"
| "get ThreadDestructor s = td_get s"
| "get UntypedWrapper s = untyped s"

text \<open>Assignment through the reference that \<open>get()\<close> returns.\<close>

fun put :: "strategy \<Rightarrow> ref \<Rightarrow> 'p thread \<Rightarrow> 'p thread" where
  "put LibcCleanup h s = s\<lparr>per_thread := h\<rparr>"
| "put ThreadDestructor h s = s\<lparr>alloc := h\<rparr>"
| "put UntypedWrapper h s = s\<lparr>untyped := h\<rparr>"

fun register_cleanup :: "strategy \<Rightarrow> 'p thread \<Rightarrow> 'p thread" where
  "register_cleanup LibcCleanup s = s"
| "register_cleanup ThreadDestructor s = s\<lparr>tidier := True\<rparr>"
| "register_cleanup UntypedWrapper s = s"

datatype error = AssertionFailed | Fatal string

definition lazy_replacement_slow ::
  "config \<Rightarrow> 'p pool_impl \<Rightarrow> 'p thread \<Rightarrow> error + (ref \<times> 'p thread)" where
  "lazy_replacement_slow c P s =
     (if get (thread_alloc c) s \<noteq> Null \<and> get (thread_alloc c) s \<noteq> Placeholder
      then Inr (get (thread_alloc c) s, s)
      else
        (let (h, s1) = pool_acquire P s;
             s2 = put (thread_alloc c) h s1
         in if \<not> ndebug c \<and> \<not> (get (thread_alloc c) s2 \<noteq> Placeholder)
            then Inl AssertionFailed
            else (let s3 = register_cleanup (thread_alloc c) s2
                  in Inr (get (thread_alloc c) s3, s3))))"

definition lazy_replacement ::
  "config \<Rightarrow> 'p pool_impl \<Rightarrow> ref \<Rightarrow> 'p thread \<Rightarrow> error + (ref \<times> 'p thread)" where
  "lazy_replacement c P existing s =
     (if existing \<noteq> Placeholder then Inr (Null, s) else lazy_replacement_slow c P s)"

text \<open>A run of \<open>n\<close> calls of \<open>get()\<close>, collecting what each returns.\<close>

fun get_calls :: "strategy \<Rightarrow> nat \<Rightarrow> 'p thread \<Rightarrow> ref list \<times> 'p thread" where
  "get_calls st 0 s = ([], s)"
| "get_calls st (Suc n) s =
     (let r = get st s;
          (rs, s') = get_calls st n s
      in (r # rs, s'))"

section \<open>The Apple platform abstraction layer (src/pal/pal_apple.h)\<close>

type_synonym addr = "64 word"
type_synonym byte = "8 word"

subsection \<open>The operating system\<close>

text \<open>
  \<open>PROT_READ | PROT_WRITE\<close> and \<open>MAP_PRIVATE | MAP_ANONYMOUS | MAP_FIXED\<close> are sets of
  flags.
\<close>

datatype prot = PROT_READ | PROT_WRITE

datatype map_flag = MAP_PRIVATE | MAP_ANONYMOUS | MAP_FIXED

text \<open>The calls a backend makes, with their arguments in the order of the C prototypes.\<close>

datatype syscall =
    Mmap addr "64 word" "prot set" "map_flag set" "32 word" "64 word"
  | Bzero addr "64 word"

record os =
  mem :: "addr \<Rightarrow> byte"
  mappings :: "(addr \<times> 64 word) list"
  syscalls :: "syscall list"

definition MAP_FAILED :: addr where
  "MAP_FAILED = - 1"

text \<open>The bytes \<open>p, p + 1, ..., p + len - 1\<close> (addresses wrap at \<open>2 ^ 64\<close>) become zero.\<close>

definition fill_zero :: "addr \<Rightarrow> 64 word \<Rightarrow> (addr \<Rightarrow> byte) \<Rightarrow> (addr \<Rightarrow> byte)" where
  "fill_zero p len m = (\<lambda>a. if a - p < len then 0 else m a)"

text \<open>
  Modelled from the spec: the system call \<open>mmap\<close> for anonymous memory. "Re-map the region
  as freshly anonymous memory, which the OS zero-fills"; a reservation is "a contiguous
  address-space region of exactly \<open>size\<close> bytes". Whether the call succeeds, and where the
  kernel places a mapping that is not \<open>MAP_FIXED\<close>, is the kernel's \<open>answer\<close>: \<open>None\<close> is
  failure (the call returns \<open>MAP_FAILED\<close> and changes nothing), \<open>Some a\<close> is success with
  \<open>a\<close> the address it picked; with \<open>MAP_FIXED\<close> the mapping is placed at the hint.
\<close>

definition mmap ::
  "addr option \<Rightarrow> addr \<Rightarrow> 64 word \<Rightarrow> prot set \<Rightarrow> map_flag set \<Rightarrow> 32 word \<Rightarrow> 64 word
     \<Rightarrow> os \<Rightarrow> addr \<times> os" where
  "mmap answer hint len pr fl fd off s =
     (let s1 = s\<lparr>syscalls := syscalls s @ [Mmap hint len pr fl fd off]\<rparr>
      in case answer of
           None \<Rightarrow> (MAP_FAILED, s1)
         | Some a \<Rightarrow>
             (let base = (if MAP_FIXED \<in> fl then hint else a)
              in (base, s1\<lparr>mem := fill_zero base len (mem s1),
                            mappings := (base, len) # mappings s1\<rparr>)))"

text \<open>Modelled from the spec: \<open>bzero\<close>, "a direct byte-wise zero fill".\<close>

definition bzero :: "addr \<Rightarrow> 64 word \<Rightarrow> os \<Rightarrow> os" where
  "bzero p len s =
     s\<lparr>mem := fill_zero p len (mem s), syscalls := syscalls s @ [Bzero p len]\<rparr>"

text \<open>
  Modelled from the spec: \<open>bits::is_aligned_block<OS_PAGE_SIZE>\<close> (\<open>ds/bits.h\<close> is not
  among the sources), the region is "verified at runtime to be aligned to the platform page
  size". The page size \<open>OS_PAGE_SIZE\<close> is a parameter.
\<close>

definition is_aligned_block :: "64 word \<Rightarrow> addr \<Rightarrow> 64 word \<Rightarrow> bool" where
  "is_aligned_block page_size p sz \<longleftrightarrow> p mod page_size = 0 \<and> sz mod page_size = 0"

subsection \<open>PALApple\<close>

text \<open>\<open>PALBSD::pal_features\<close> (\<open>pal_bsd.h\<close>) is not among the sources: a parameter.\<close>

definition pal_features :: "64 word \<Rightarrow> 64 word" where
  "pal_features PALBSD_pal_features = PALBSD_pal_features"

text \<open>\<open>VM_MAKE_TAG(241)\<close>: Darwin's macro shifts the tag into the top byte.\<close>

definition pal_anon_id :: "32 word" where
  "pal_anon_id = push_bit 24 241"

text \<open>
  \<open>zero<page_aligned>(p, size)\<close>; \<open>nd\<close> tells whether \<open>NDEBUG\<close> is defined, which
  compiles the \<open>assert\<close> away.
\<close>

definition zero ::
  "64 word \<Rightarrow> bool \<Rightarrow> bool \<Rightarrow> addr option \<Rightarrow> addr \<Rightarrow> 64 word \<Rightarrow> os \<Rightarrow> error + os" where
  "zero page_size nd page_aligned answer p sz s =
     (if page_aligned \<or> is_aligned_block page_size p sz
      then
        (if \<not> nd \<and> \<not> is_aligned_block page_size p sz
         then Inl AssertionFailed
         else
           (let (r, s1) = mmap answer p sz {PROT_READ, PROT_WRITE}
                            {MAP_PRIVATE, MAP_ANONYMOUS, MAP_FIXED} pal_anon_id 0 s
            in if r \<noteq> MAP_FAILED then Inr s1 else Inr (bzero p sz s1)))
      else Inr (bzero p sz s))"

text \<open>
  Modelled from the spec: the PAL's \<open>error\<close> (\<open>pal_bsd.h\<close> and the PAL base are not among
  the sources), a "process-terminating error, not a recoverable result". Nothing after the
  call runs.
\<close>

definition pal_error :: "string \<Rightarrow> error + 'a" where
  "pal_error str = Inl (Fatal str)"

text \<open>
  \<open>reserve<committed>(size)\<close>, with \<open>sz\<close> the value \<open>*size\<close>; after \<open>error\<close> the
  \<open>return p\<close> is not reached.
\<close>

definition reserve ::
  "bool \<Rightarrow> addr option \<Rightarrow> 64 word \<Rightarrow> os \<Rightarrow> error + (addr \<times> os)" where
  "reserve committed answer sz s =
     (let (p, s1) = mmap answer 0 sz {PROT_READ, PROT_WRITE}
                      {MAP_PRIVATE, MAP_ANONYMOUS} pal_anon_id 0 s
      in if p = MAP_FAILED then pal_error ''Out of memory'' else Inr (p, s1))"

text \<open>A machine whose memory holds \<open>0xff\<close> everywhere, with nothing mapped.\<close>

definition dirty_os :: os where
  "dirty_os = \<lparr>mem = (\<lambda>a. 255), mappings = [], syscalls = []\<rparr>"

section \<open>Properties of the thread attachment\<close>

subsection \<open>Reading and writing the slot\<close>

lemma get_put [simp]: "get st (put st h s) = h"
  by (cases st) (simp_all add: libc_get_def td_get_def)

lemma get_register_cleanup [simp]: "get st (register_cleanup st s) = get st s"
  by (cases st) (simp_all add: libc_get_def td_get_def)

lemma calls_put [simp]: "calls (put st h s) = calls s"
  by (cases st) simp_all

lemma calls_register_cleanup [simp]: "calls (register_cleanup st s) = calls s"
  by (cases st) simp_all

lemma pool_put [simp]: "pool (put st h s) = pool s"
  by (cases st) simp_all

lemma pool_register_cleanup [simp]: "pool (register_cleanup st s) = pool s"
  by (cases st) simp_all

lemma pool_acquire_result:
  "pool_acquire P s =
     (fst (acquire_fn P (pool s)),
      s\<lparr>pool := snd (acquire_fn P (pool s)),
        calls := calls s @ [Acquire (fst (acquire_fn P (pool s)))]\<rparr>)"
  by (simp add: pool_acquire_def case_prod_beta)

subsection \<open>The libc cleanup hook\<close>

text \<open>
  Whatever real handle the slot holds, \<open>exit()\<close> releases it and leaves every thread-local
  pointer as it was: only the local copy becomes \<open>nullptr\<close>.
\<close>

lemma libc_exit_real_handle:
  assumes "per_thread s \<noteq> Placeholder" and "per_thread s \<noteq> Null"
  shows "libc_exit P s = pool_release P (per_thread s) s"
    and "per_thread (libc_exit P s) = per_thread s"
    and "fst (libc_exit_locals P s) = Null"
  using assms
  by (simp_all add: libc_exit_def libc_exit_locals_def libc_get_def pool_release_def Let_def)

text \<open>
  Claim C1. For the libc cleanup strategy, when the cleanup entry point runs while the slot
  holds a real handle, the handle is released to the pool and afterwards the slot is null.

  The release happens, but the slot is not cleared. On a thread whose slot holds handle 1,
  \<open>exit()\<close> calls \<open>release\<close> on handle 1 and nothing else, the local \<open>per_thread\<close> ends as
  \<open>nullptr\<close>, and the slot that \<open>get()\<close> returns still refers to handle 1, which the pool
  now owns.
\<close>

theorem libc_exit_slot_still_set:
  "calls (libc_exit spec_pool ((fresh_thread Null empty_pool)\<lparr>per_thread := Handle 1\<rparr>))
     = [Release (Handle 1)]
   \<and> fst (libc_exit_locals spec_pool ((fresh_thread Null empty_pool)\<lparr>per_thread := Handle 1\<rparr>))
     = Null
   \<and> libc_get (libc_exit spec_pool ((fresh_thread Null empty_pool)\<lparr>per_thread := Handle 1\<rparr>))
     = Handle 1
   \<and> libc_get (libc_exit spec_pool ((fresh_thread Null empty_pool)\<lparr>per_thread := Handle 1\<rparr>))
     \<noteq> Null"
  by (simp add: libc_exit_def libc_exit_locals_def libc_get_def pool_release_def
      fresh_thread_def Let_def)

subsection \<open>Lazy replacement\<close>

text \<open>
  Claim C2. For every \<open>existing\<close> other than the placeholder, \<open>lazy_replacement(existing)\<close>
  returns null and leaves the thread's state, the pool and the log of pool calls as they
  were (the state returned is the state given); for the placeholder it is the slow path,
  result and state.
\<close>

theorem lazy_replacement_fast_path:
  "(existing \<noteq> Placeholder \<longrightarrow> lazy_replacement c P existing s = Inr (Null, s))
   \<and> lazy_replacement c P Placeholder s = lazy_replacement_slow c P s"
  by (simp add: lazy_replacement_def)

theorem lazy_replacement_fast_path_witness:
  "Handle 7 \<noteq> Placeholder
   \<and> lazy_replacement \<lparr>thread_alloc = ThreadDestructor, ndebug = False\<rparr> spec_pool (Handle 7)
       ((fresh_thread Null empty_pool)\<lparr>alloc := Handle 7\<rparr>)
     = Inr (Null, (fresh_thread Null empty_pool)\<lparr>alloc := Handle 7\<rparr>)
   \<and> lazy_replacement \<lparr>thread_alloc = ThreadDestructor, ndebug = False\<rparr> spec_pool Null
       (fresh_thread Null empty_pool)
     = Inr (Null, fresh_thread Null empty_pool)"
  using
    lazy_replacement_fast_path [of "Handle 7"
      "\<lparr>thread_alloc = ThreadDestructor, ndebug = False\<rparr>" spec_pool
      "(fresh_thread Null empty_pool)\<lparr>alloc := Handle 7\<rparr>"]
    lazy_replacement_fast_path [of Null
      "\<lparr>thread_alloc = ThreadDestructor, ndebug = False\<rparr>" spec_pool
      "fresh_thread Null empty_pool"]
  by simp

lemma slow_already_promoted:
  "get (thread_alloc c) s \<noteq> Null \<Longrightarrow> get (thread_alloc c) s \<noteq> Placeholder \<Longrightarrow>
   lazy_replacement_slow c P s = Inr (get (thread_alloc c) s, s)"
  by (simp add: lazy_replacement_slow_def)

lemma slow_acquires:
  assumes "get (thread_alloc c) s = Null \<or> get (thread_alloc c) s = Placeholder"
    and "fst (acquire_fn P (pool s)) \<noteq> Placeholder"
  shows "lazy_replacement_slow c P s =
     Inr (fst (acquire_fn P (pool s)),
          register_cleanup (thread_alloc c)
            (put (thread_alloc c) (fst (acquire_fn P (pool s))) (snd (pool_acquire P s))))"
  using assms by (auto simp: lazy_replacement_slow_def pool_acquire_result)

lemma slow_never_placeholder:
  assumes "lazy_replacement_slow c P s = Inr (r, s')" and "\<not> ndebug c"
  shows "r \<noteq> Placeholder"
  using assms
  by (auto simp: lazy_replacement_slow_def pool_acquire_result split: if_splits)

text \<open>
  Claim C3. The slow promotion procedure re-reads the slot. A slot that holds a handle
  (neither null nor the placeholder) is returned as it is, with no pool call and the state
  unchanged. Otherwise the procedure calls \<open>acquire\<close> once, stores the handle \<open>h\<close> it got in
  the slot, calls \<open>register_cleanup\<close> (which under the destructor strategy constructs the
  \<open>tidier\<close>), and returns \<open>h\<close>; this is for a pool that keeps its contract, \<open>acquire\<close>
  never gives the placeholder. In a build with assertions, no pool can make the
  procedure return the placeholder: the \<open>assert\<close> stops it first.
\<close>

theorem lazy_replacement_slow_promotes:
  "(get (thread_alloc c) s \<noteq> Null \<and> get (thread_alloc c) s \<noteq> Placeholder \<longrightarrow>
      lazy_replacement_slow c P s = Inr (get (thread_alloc c) s, s))
   \<and> ((get (thread_alloc c) s = Null \<or> get (thread_alloc c) s = Placeholder)
        \<and> fst (acquire_fn P (pool s)) \<noteq> Placeholder \<longrightarrow>
      (\<exists>h s'. lazy_replacement_slow c P s = Inr (h, s')
          \<and> h = fst (acquire_fn P (pool s))
          \<and> h \<noteq> Placeholder
          \<and> s' = register_cleanup (thread_alloc c)
                 (put (thread_alloc c) h (snd (pool_acquire P s)))
          \<and> get (thread_alloc c) s' = h
          \<and> calls s' = calls s @ [Acquire h]
          \<and> pool s' = snd (acquire_fn P (pool s))
          \<and> (thread_alloc c = ThreadDestructor \<longrightarrow> tidier s')))
   \<and> (\<forall>r s'. lazy_replacement_slow c P s = Inr (r, s') \<and> \<not> ndebug c \<longrightarrow> r \<noteq> Placeholder)"
proof (intro conjI impI allI)
  assume "get (thread_alloc c) s \<noteq> Null \<and> get (thread_alloc c) s \<noteq> Placeholder"
  then show "lazy_replacement_slow c P s = Inr (get (thread_alloc c) s, s)"
    by (simp add: slow_already_promoted)
next
  assume a: "(get (thread_alloc c) s = Null \<or> get (thread_alloc c) s = Placeholder)
        \<and> fst (acquire_fn P (pool s)) \<noteq> Placeholder"
  let ?h = "fst (acquire_fn P (pool s))"
  let ?s' = "register_cleanup (thread_alloc c)
               (put (thread_alloc c) ?h (snd (pool_acquire P s)))"
  have r: "lazy_replacement_slow c P s = Inr (?h, ?s')"
    using a by (simp add: slow_acquires)
  have t: "thread_alloc c = ThreadDestructor \<longrightarrow> tidier ?s'"
    by simp
  have "calls ?s' = calls s @ [Acquire ?h]" "pool ?s' = snd (acquire_fn P (pool s))"
    by (simp_all add: pool_acquire_result)
  with r a t show "\<exists>h s'. lazy_replacement_slow c P s = Inr (h, s')
          \<and> h = fst (acquire_fn P (pool s))
          \<and> h \<noteq> Placeholder
          \<and> s' = register_cleanup (thread_alloc c)
                 (put (thread_alloc c) h (snd (pool_acquire P s)))
          \<and> get (thread_alloc c) s' = h
          \<and> calls s' = calls s @ [Acquire h]
          \<and> pool s' = snd (acquire_fn P (pool s))
          \<and> (thread_alloc c = ThreadDestructor \<longrightarrow> tidier s')"
    by simp
next
  fix r s'
  assume "lazy_replacement_slow c P s = Inr (r, s') \<and> \<not> ndebug c"
  then show "r \<noteq> Placeholder"
    using slow_never_placeholder by blast
qed

theorem lazy_replacement_slow_promotes_witness:
  "lazy_replacement_slow \<lparr>thread_alloc = ThreadDestructor, ndebug = False\<rparr> spec_pool
       (fresh_thread Null empty_pool)
     = Inr (Handle 0,
         \<lparr>per_thread = Placeholder, alloc = Handle 0, untyped = Null, tidier = True,
          pool = \<lparr>idle = [], fresh = 1\<rparr>, calls = [Acquire (Handle 0)]\<rparr>)
   \<and> lazy_replacement_slow \<lparr>thread_alloc = LibcCleanup, ndebug = True\<rparr> spec_pool
       ((fresh_thread Null empty_pool)\<lparr>per_thread := Handle 4\<rparr>)
     = Inr (Handle 4, (fresh_thread Null empty_pool)\<lparr>per_thread := Handle 4\<rparr>)"
proof -
  let ?c = "\<lparr>thread_alloc = ThreadDestructor, ndebug = False\<rparr>"
  let ?s = "fresh_thread Null empty_pool :: pool_state thread"
  have slot: "get (thread_alloc ?c) ?s = Null \<or> get (thread_alloc ?c) ?s = Placeholder"
    by (simp add: fresh_thread_def td_get_def)
  have acq: "acquire_fn spec_pool (pool ?s) = (Handle 0, \<lparr>idle = [], fresh = 1\<rparr>)"
    by (simp add: spec_pool_def spec_acquire_def fresh_thread_def empty_pool_def)
  then have contract: "fst (acquire_fn spec_pool (pool ?s)) \<noteq> Placeholder"
    by simp
  from lazy_replacement_slow_promotes [of ?c ?s spec_pool, THEN conjunct2, THEN conjunct1]
    slot contract
  obtain h s' where r: "lazy_replacement_slow ?c spec_pool ?s = Inr (h, s')"
    and h: "h = fst (acquire_fn spec_pool (pool ?s))"
    and s': "s' = register_cleanup (thread_alloc ?c)
                 (put (thread_alloc ?c) h (snd (pool_acquire spec_pool ?s)))"
    by blast
  from h acq have h0: "h = Handle 0"
    by simp
  have "snd (pool_acquire spec_pool ?s)
      = ?s\<lparr>pool := \<lparr>idle = [], fresh = 1\<rparr>, calls := calls ?s @ [Acquire (Handle 0)]\<rparr>"
    by (simp only: pool_acquire_result acq fst_conv snd_conv)
  with s' h0 have "s' = \<lparr>per_thread = Placeholder, alloc = Handle 0, untyped = Null,
      tidier = True, pool = \<lparr>idle = [], fresh = 1\<rparr>, calls = [Acquire (Handle 0)]\<rparr>"
    by (simp add: fresh_thread_def)
  with r h0 have one: "lazy_replacement_slow ?c spec_pool ?s
     = Inr (Handle 0,
         \<lparr>per_thread = Placeholder, alloc = Handle 0, untyped = Null, tidier = True,
          pool = \<lparr>idle = [], fresh = 1\<rparr>, calls = [Acquire (Handle 0)]\<rparr>)"
    by simp
  let ?d = "\<lparr>thread_alloc = LibcCleanup, ndebug = True\<rparr>"
  let ?t = "(fresh_thread Null empty_pool :: pool_state thread)\<lparr>per_thread := Handle 4\<rparr>"
  have g: "get (thread_alloc ?d) ?t = Handle 4"
    by (simp add: libc_get_def)
  then have "get (thread_alloc ?d) ?t \<noteq> Null \<and> get (thread_alloc ?d) ?t \<noteq> Placeholder"
    by simp
  with lazy_replacement_slow_promotes [of ?d ?t spec_pool, THEN conjunct1]
  have "lazy_replacement_slow ?d spec_pool ?t = Inr (get (thread_alloc ?d) ?t, ?t)"
    by blast
  with g have two: "lazy_replacement_slow ?d spec_pool ?t = Inr (Handle 4, ?t)"
    by simp
  from one two show ?thesis
    by blast
qed

subsection \<open>Release by the thread-local destructor\<close>

text \<open>
  Claim C4. After \<open>inner_release()\<close> the slot of the destructor strategy refers to the
  placeholder. When the slot held something other than the placeholder, the pool's
  \<open>release\<close> has been applied, once, to the handle the slot held: the pool is in the
  state that \<open>release\<close> of that handle gives, and the log has grown by that one call.
  When the slot held the placeholder, the pool is untouched and the log has not grown.
  Nothing else of the thread changes.
\<close>

theorem inner_release_resets_slot:
  "td_get (inner_release P s) = Placeholder
   \<and> calls (inner_release P s)
       = calls s @ (if td_get s \<noteq> Placeholder then [Release (td_get s)] else [])
   \<and> pool (inner_release P s)
       = (if td_get s \<noteq> Placeholder then release_fn P (td_get s) (pool s) else pool s)
   \<and> per_thread (inner_release P s) = per_thread s
   \<and> untyped (inner_release P s) = untyped s
   \<and> tidier (inner_release P s) = tidier s"
  by (simp add: inner_release_def td_get_def pool_release_def)

theorem inner_release_resets_slot_witness:
  "td_get (inner_release spec_pool ((fresh_thread Null empty_pool)\<lparr>alloc := Handle 3\<rparr>))
     = Placeholder
   \<and> calls (inner_release spec_pool ((fresh_thread Null empty_pool)\<lparr>alloc := Handle 3\<rparr>))
     = [Release (Handle 3)]
   \<and> pool (inner_release spec_pool ((fresh_thread Null empty_pool)\<lparr>alloc := Handle 3\<rparr>))
     = \<lparr>idle = [Handle 3], fresh = 0\<rparr>
   \<and> calls (inner_release spec_pool (fresh_thread Null empty_pool)) = []
   \<and> pool (inner_release spec_pool (fresh_thread Null empty_pool)) = empty_pool"
  using
    inner_release_resets_slot [of spec_pool
      "(fresh_thread Null empty_pool)\<lparr>alloc := Handle 3\<rparr>"]
    inner_release_resets_slot [of spec_pool "fresh_thread Null empty_pool"]
  by (simp add: td_get_def fresh_thread_def spec_pool_def spec_release_def empty_pool_def)

text \<open>
  Claim C10. A second \<open>inner_release()\<close> right after the first changes nothing: no pool
  call is added to the log and the slot is still the placeholder.
\<close>

theorem inner_release_idempotent:
  "inner_release P (inner_release P s) = inner_release P s
   \<and> calls (inner_release P (inner_release P s)) = calls (inner_release P s)
   \<and> td_get (inner_release P (inner_release P s)) = Placeholder"
  by (simp add: inner_release_def td_get_def pool_release_def)

subsection \<open>Reading the slot of a fresh thread\<close>

lemma get_calls_pure: "get_calls st n s = (replicate n (get st s), s)"
  by (induction n) simp_all

text \<open>
  Claim C5. On a fresh thread, any number of calls of \<open>get()\<close> (of the libc strategy and
  of the destructor strategy) return the placeholder each time and leave the thread as it
  was: in particular the log of pool calls stays empty.
\<close>

theorem get_placeholder_purity:
  "get_calls LibcCleanup n (fresh_thread host p) = (replicate n Placeholder, fresh_thread host p)
   \<and> get_calls ThreadDestructor n (fresh_thread host p) = (replicate n Placeholder, fresh_thread host p)
   \<and> calls (snd (get_calls LibcCleanup n (fresh_thread host p))) = []
   \<and> calls (snd (get_calls ThreadDestructor n (fresh_thread host p))) = []"
  by (simp add: get_calls_pure libc_get_def td_get_def fresh_thread_def)

section \<open>Properties of the Apple PAL\<close>

lemma fill_zero_inside: "i < len \<Longrightarrow> fill_zero p len m (p + i) = 0"
  by (simp add: fill_zero_def)

lemma mmap_failure:
  "mmap None hint len pr fl fd off s =
     (MAP_FAILED, s\<lparr>syscalls := syscalls s @ [Mmap hint len pr fl fd off]\<rparr>)"
  by (simp add: mmap_def)

lemma mmap_success:
  "mmap (Some a) hint len pr fl fd off s =
     (if MAP_FIXED \<in> fl then hint else a,
      s\<lparr>syscalls := syscalls s @ [Mmap hint len pr fl fd off],
        mem := fill_zero (if MAP_FIXED \<in> fl then hint else a) len (mem s),
        mappings := (if MAP_FIXED \<in> fl then hint else a, len) # mappings s\<rparr>)"
  by (simp add: mmap_def Let_def)

text \<open>
  Claim C6. Let \<open>p\<close> and \<open>sz\<close> be page-aligned whenever \<open>page_aligned\<close> is true. Then
  \<open>zero<page_aligned>(p, sz)\<close> returns, and afterwards every byte of the block
  \<open>p, ..., p + sz - 1\<close> is zero, whatever the kernel answers to the remap. The calls made
  are: for a block that passes the alignment test, the \<open>mmap\<close> at \<open>p\<close>, followed by
  \<open>bzero\<close> when it returned \<open>MAP_FAILED\<close>; for any other block (so \<open>page_aligned\<close> is
  false), \<open>bzero\<close> alone.
\<close>

theorem zero_fills_block:
  assumes "page_aligned \<longrightarrow> is_aligned_block page_size p sz"
  shows "\<exists>s'. zero page_size nd page_aligned answer p sz s = Inr s'
     \<and> (\<forall>i. i < sz \<longrightarrow> mem s' (p + i) = 0)
     \<and> syscalls s' = syscalls s @
         (if is_aligned_block page_size p sz
          then Mmap p sz {PROT_READ, PROT_WRITE} {MAP_PRIVATE, MAP_ANONYMOUS, MAP_FIXED}
                 pal_anon_id 0
               # (if answer = None \<or> p = MAP_FAILED then [Bzero p sz] else [])
          else [Bzero p sz])"
proof (cases "is_aligned_block page_size p sz")
  case False
  with assms have "zero page_size nd page_aligned answer p sz s = Inr (bzero p sz s)"
    by (simp add: zero_def)
  with False show ?thesis
    by (simp add: bzero_def fill_zero_inside)
next
  case True
  show ?thesis
  proof (cases answer)
    case None
    with True show ?thesis
      by (simp add: zero_def mmap_failure bzero_def fill_zero_inside)
  next
    case (Some a)
    with True show ?thesis
      by (simp add: zero_def mmap_success bzero_def fill_zero_inside)
  qed
qed

theorem zero_fills_block_witness:
  "(\<exists>s'. zero 4096 False False None 4097 3 dirty_os = Inr s'
       \<and> mem s' 4097 = 0 \<and> mem s' 4098 = 0 \<and> mem s' 4099 = 0
       \<and> syscalls s' = [Bzero 4097 3])
   \<and> (\<exists>s'. zero 4096 False True (Some 0) 8192 4096 dirty_os = Inr s'
       \<and> mem s' 8192 = 0 \<and> mem s' (8192 + 4095) = 0
       \<and> syscalls s' = [Mmap 8192 4096 {PROT_READ, PROT_WRITE}
                            {MAP_PRIVATE, MAP_ANONYMOUS, MAP_FIXED} pal_anon_id 0])"
proof -
  have m: "\<not> is_aligned_block 4096 4097 3"
    by (simp add: is_aligned_block_def)
  have a: "is_aligned_block 4096 8192 4096"
    by (simp add: is_aligned_block_def)
  have n: "(8192 :: addr) \<noteq> MAP_FAILED"
    by (simp add: MAP_FAILED_def)
  from zero_fills_block [of False 4096 4097 3 False None dirty_os] m
  obtain s1 where s1: "zero 4096 False False None 4097 3 dirty_os = Inr s1"
    "\<forall>i. i < 3 \<longrightarrow> mem s1 (4097 + i) = 0" "syscalls s1 = [Bzero 4097 3]"
    by (auto simp: dirty_os_def)
  from s1(2) [rule_format, of 0] s1(2) [rule_format, of 1] s1(2) [rule_format, of 2]
  have b1: "mem s1 4097 = 0 \<and> mem s1 4098 = 0 \<and> mem s1 4099 = 0"
    by simp
  from zero_fills_block [of True 4096 8192 4096 False "Some 0" dirty_os] a n
  obtain s2 where s2: "zero 4096 False True (Some 0) 8192 4096 dirty_os = Inr s2"
    "\<forall>i. i < 4096 \<longrightarrow> mem s2 (8192 + i) = 0"
    "syscalls s2 = [Mmap 8192 4096 {PROT_READ, PROT_WRITE}
                            {MAP_PRIVATE, MAP_ANONYMOUS, MAP_FIXED} pal_anon_id 0]"
    by (auto simp: dirty_os_def)
  from s2(2) [rule_format, of 0] s2(2) [rule_format, of 4095]
  have "mem s2 8192 = 0 \<and> mem s2 (8192 + 4095) = 0"
    by simp
  with s1 s2 b1 show ?thesis
    by simp
qed

text \<open>
  Claim C7. For every size, \<open>reserve<committed>\<close> ends in the fatal error, or returns an
  address other than \<open>MAP_FAILED\<close> at which the kernel has just mapped a region of exactly
  the requested size, by a single hint-free \<open>mmap\<close> call of that length.
\<close>

theorem reserve_exact_or_fatal:
  "reserve committed answer sz s = Inl (Fatal ''Out of memory'')
   \<or> (\<exists>p s'. reserve committed answer sz s = Inr (p, s')
         \<and> p \<noteq> MAP_FAILED
         \<and> mappings s' = (p, sz) # mappings s
         \<and> syscalls s' = syscalls s @
             [Mmap 0 sz {PROT_READ, PROT_WRITE} {MAP_PRIVATE, MAP_ANONYMOUS} pal_anon_id 0])"
  by (cases answer) (simp_all add: reserve_def pal_error_def mmap_failure mmap_success)

theorem reserve_exact_or_fatal_witness:
  "reserve True (Some 4096) 100 dirty_os
     = Inr (4096,
         \<lparr>mem = fill_zero 4096 100 (\<lambda>a. 255), mappings = [(4096, 100)],
          syscalls = [Mmap 0 100 {PROT_READ, PROT_WRITE} {MAP_PRIVATE, MAP_ANONYMOUS}
                        pal_anon_id 0]\<rparr>)
   \<and> reserve True None 100 dirty_os = Inl (Fatal ''Out of memory'')"
proof -
  have ok: "reserve True (Some 4096) 100 dirty_os
     = Inr (4096,
         \<lparr>mem = fill_zero 4096 100 (\<lambda>a. 255), mappings = [(4096, 100)],
          syscalls = [Mmap 0 100 {PROT_READ, PROT_WRITE} {MAP_PRIVATE, MAP_ANONYMOUS}
                        pal_anon_id 0]\<rparr>)"
    by (simp add: reserve_def pal_error_def mmap_success dirty_os_def MAP_FAILED_def)
  have "\<not> (\<exists>p s'. reserve True None 100 dirty_os = Inr (p, s'))"
    by (simp add: reserve_def pal_error_def mmap_failure)
  with reserve_exact_or_fatal [of True None 100 dirty_os]
  have "reserve True None 100 dirty_os = Inl (Fatal ''Out of memory'')"
    by blast
  with ok show ?thesis
    by blast
qed

text \<open>
  Claim C8. The Apple backend's \<open>pal_features\<close> is its BSD base's flag set: equal to it,
  so every flag of the base is a flag of the Apple backend.
\<close>

theorem pal_features_superset:
  "pal_features PALBSD_pal_features = PALBSD_pal_features
   \<and> PALBSD_pal_features AND pal_features PALBSD_pal_features = PALBSD_pal_features"
  by (simp add: pal_features_def)

text \<open>
  Claim C9. \<open>reserve<true>\<close> and \<open>reserve<false>\<close> are the same function: for every size,
  machine state and kernel answer they make the same \<open>mmap\<close> request and give the same
  result.
\<close>

theorem reserve_ignores_committed:
  "reserve True answer sz s = reserve False answer sz s"
  by (simp add: reserve_def)

end
